theory Spec2Isabelle
  imports Complex_Main "HOL-Library.Monad_Syntax" "HOL-Library.Signed_Division"
begin

section \<open>Procedural particle shapes: the shaders and the control loop\<close>

text \<open>
  The repository holds two variants of the same program: the full one (four templates,
  shaders \<open>particleVertexShader\<close> and \<open>particleFragmentShader\<close>, a timer-driven
  \<open>getGestureData\<close>) and a reduced one in \<open>main.js\<close> (three templates, \<open>vShader\<close>).

  GLSL \<open>float\<close> is modelled by \<open>real\<close>: rounding is left out. What GLSL leaves
  undefined is an explicit \<open>None\<close>: \<open>pow(x, y)\<close> with \<open>x < 0\<close> (or \<open>x = 0\<close>
  and \<open>y \<le> 0\<close>), and a division by zero, which is what \<open>normalize\<close> performs on the
  zero vector (on a GPU these are the operations that yield NaN or infinity).
\<close>

subsection \<open>Vectors and the GLSL built-ins the shaders use\<close>

datatype vec3 = Vec3 (vx: real) (vy: real) (vz: real)

datatype vec4 = Vec4 (wx: real) (wy: real) (wz: real) (ww: real)

text \<open>A \<open>mat4\<close> is stored by columns, as in GLSL.\<close>

datatype mat4 = Mat4 vec4 vec4 vec4 vec4

definition vscale :: "vec3 \<Rightarrow> real \<Rightarrow> vec3" where
  "vscale v s = Vec3 (vx v * s) (vy v * s) (vz v * s)"

definition vadd :: "vec3 \<Rightarrow> vec3 \<Rightarrow> vec3" where
  "vadd v w = Vec3 (vx v + vx w) (vy v + vy w) (vz v + vz w)"

definition vlength :: "vec3 \<Rightarrow> real" where
  "vlength v = sqrt (vx v * vx v + vy v * vy v + vz v * vz v)"

definition fdiv :: "real \<Rightarrow> real \<Rightarrow> real option" where
  "fdiv x y = (if y = 0 then None else Some (x / y))"

text \<open>\<open>normalize(v)\<close> is \<open>v / length(v)\<close>, component by component.\<close>

definition normalize_v :: "vec3 \<Rightarrow> vec3 option" where
  "normalize_v v = do {
     x \<leftarrow> fdiv (vx v) (vlength v);
     y \<leftarrow> fdiv (vy v) (vlength v);
     z \<leftarrow> fdiv (vz v) (vlength v);
     Some (Vec3 x y z)
   }"

definition pow :: "real \<Rightarrow> real \<Rightarrow> real option" where
  "pow x y = (if x < 0 \<or> (x = 0 \<and> y \<le> 0) then None else Some (x powr y))"

text \<open>\<open>mod(x, y)\<close> is \<open>x - y * floor(x / y)\<close>.\<close>

definition mod_f :: "real \<Rightarrow> real \<Rightarrow> real" where
  "mod_f x y = x - y * of_int \<lfloor>x / y\<rfloor>"

text \<open>\<open>mix(x, y, a)\<close> is \<open>x * (1 - a) + y * a\<close>, on each component.\<close>

definition mix :: "vec3 \<Rightarrow> vec3 \<Rightarrow> real \<Rightarrow> vec3" where
  "mix x y a = vadd (vscale x (1 - a)) (vscale y a)"

definition clamp :: "real \<Rightarrow> real \<Rightarrow> real \<Rightarrow> real" where
  "clamp x lo hi = min (max x lo) hi"

definition smoothstep :: "real \<Rightarrow> real \<Rightarrow> real \<Rightarrow> real" where
  "smoothstep e0 e1 x = (let t = clamp ((x - e0) / (e1 - e0)) 0 1 in t * t * (3 - 2 * t))"

definition mat_vec :: "mat4 \<Rightarrow> vec4 \<Rightarrow> vec4" where
  "mat_vec m v = (case m of Mat4 c0 c1 c2 c3 \<Rightarrow>
     Vec4 (wx c0 * wx v + wx c1 * wy v + wx c2 * wz v + wx c3 * ww v)
          (wy c0 * wx v + wy c1 * wy v + wy c2 * wz v + wy c3 * ww v)
          (wz c0 * wx v + wz c1 * wy v + wz c2 * wz v + wz c3 * ww v)
          (ww c0 * wx v + ww c1 * wy v + ww c2 * wz v + ww c3 * ww v))"

definition xyz :: "vec4 \<Rightarrow> vec3" where
  "xyz v = Vec3 (wx v) (wy v) (wz v)"

definition vec4_of :: "vec3 \<Rightarrow> real \<Rightarrow> vec4" where
  "vec4_of v w = Vec4 (vx v) (vy v) (vz v) w"

subsection \<open>The full variant: uniforms, attributes and the vertex shader\<close>

text \<open>
  The uniforms the application sets, with the two matrices the rendering library
  supplies, and the per-vertex attributes read from the geometry's buffers.
\<close>

record uniforms =
  time :: real
  templateID :: real
  expansionFactor :: real
  modelViewMatrix :: mat4
  projectionMatrix :: mat4

record attributes =
  position :: vec3
  particleIndex :: real
  customColor :: vec3

text \<open>
  The shader divides by \<open>float(particleCount)\<close>; the shader text declares no such name,
  so it stands for the script's global \<open>particleCount = 50000\<close>.
\<close>

definition particleCount :: real where
  "particleCount = 50000"

text \<open>The local \<open>r\<close> of \<open>heartShape\<close> is computed and never used; it is left out.\<close>

definition heartShape :: "real \<Rightarrow> vec3 option" where
  "heartShape index = (let angle = index * 6.283185307 in do {
     c \<leftarrow> pow (sin angle) 3.0;
     let x = 16.0 * c;
     let y = 13.0 * cos angle - 5.0 * cos (2.0 * angle) - 2.0 * cos (3.0 * angle)
             - cos (4.0 * angle);
     let z = 0.0;
     Some (vscale (Vec3 x y z) 0.05)
   })"

definition flowerShape :: "real \<Rightarrow> vec3" where
  "flowerShape index = (let angle = index * 6.283185307;
     r = 1.0 + 0.5 * sin (angle * 5.0);
     x = r * cos angle;
     y = r * sin angle;
     z = 0.5 * cos (angle * 3.0)
   in vscale (Vec3 x y z) 1.5)"

definition saturnShape :: "uniforms \<Rightarrow> real \<Rightarrow> vec3" where
  "saturnShape u index = (let angle = index * 6.283185307;
     radius = 2.5;
     x = radius * cos angle;
     y = radius * sin angle;
     z = sin (time u * 0.5 + index * 100.0) * 0.1
   in Vec3 x y z)"

text \<open>
  \<open>fireworkShape\<close> reads the attribute \<open>particleIndex\<close> for the direction and its
  argument \<open>index\<close> for the phase. The product is evaluated from the left.
\<close>

definition fireworkDirection :: "attributes \<Rightarrow> vec3 option" where
  "fireworkDirection a = normalize_v (Vec3
     (sin (particleIndex a * 1.23) * cos (particleIndex a * 3.45))
     (sin (particleIndex a * 5.67) * cos (particleIndex a * 7.89))
     (sin (particleIndex a * 9.01) * cos (particleIndex a * 2.34)))"

definition fireworkShape :: "uniforms \<Rightarrow> attributes \<Rightarrow> real \<Rightarrow> vec3 option" where
  "fireworkShape u a index = (let initialPos = Vec3 0 0 0;
     explosionTime = mod_f (time u * 0.2 + index * 0.01) 1.0
   in do {
     direction \<leftarrow> fireworkDirection a;
     let speed = 5.0;
     Some (vadd initialPos
       (vscale (vscale (vscale (vscale direction speed) explosionTime) (1.0 - explosionTime)) 10.0))
   })"

text \<open>
  The first half of \<open>main\<close>. The local \<open>position\<close> starts as the attribute; the
  template switching logic assigns it in every branch; the expansion control scales it.
\<close>

definition templateSwitch :: "uniforms \<Rightarrow> attributes \<Rightarrow> vec3 \<Rightarrow> vec3 option" where
  "templateSwitch u a position0 =
     (if templateID u < 0.5 then heartShape (particleIndex a / particleCount)
      else if templateID u < 1.5 then Some (flowerShape (particleIndex a / particleCount))
      else if templateID u < 2.5 then Some (saturnShape u (particleIndex a / particleCount))
      else fireworkShape u a (particleIndex a / particleCount))"

definition main_position :: "uniforms \<Rightarrow> attributes \<Rightarrow> vec3 option" where
  "main_position u a = do {
     let position0 = position a;
     position1 \<leftarrow> templateSwitch u a position0;
     Some (vscale position1 (1.0 + expansionFactor u * 3.0))
   }"

record vertex_out =
  gl_Position :: vec4
  gl_PointSize :: real
  vColor :: vec3

definition particleVertexShader_main :: "uniforms \<Rightarrow> attributes \<Rightarrow> vertex_out option" where
  "particleVertexShader_main u a = do {
     pos \<leftarrow> main_position u a;
     let mvPosition = mat_vec (modelViewMatrix u) (vec4_of pos 1.0);
     q \<leftarrow> fdiv 200.0 (vlength (xyz mvPosition));
     Some \<lparr> gl_Position = mat_vec (projectionMatrix u) mvPosition,
            gl_PointSize = (10.0 - expansionFactor u * 5.0) * q,
            vColor = customColor a \<rparr>
   }"

subsection \<open>The full variant: the fragment shader's colour\<close>

text \<open>
  The colour the fragment shader blends, branch by branch; then the third argument of
  \<open>mix\<close> and its second one, as the two branches write them.
\<close>

definition dynamicColor :: "uniforms \<Rightarrow> vec3 \<Rightarrow> vec3" where
  "dynamicColor u c =
     (if templateID u = 3.0 then mix c (Vec3 1.0 0.5 0.0) (sin (time u * 5.0) * 0.5 + 0.5)
      else mix c (Vec3 1.0 0.0 0.0) (sin (time u) * 0.2))"

definition mixWeight :: "uniforms \<Rightarrow> real" where
  "mixWeight u = (if templateID u = 3.0 then sin (time u * 5.0) * 0.5 + 0.5
                  else sin (time u) * 0.2)"

definition accentColor :: "uniforms \<Rightarrow> vec3" where
  "accentColor u = (if templateID u = 3.0 then Vec3 1.0 0.5 0.0 else Vec3 1.0 0.0 0.0)"

text \<open>
  The fragment shader's output: the blended colour, and an opacity that fades towards the
  rim of the point sprite. Its second argument is the varying \<open>vColor\<close>, its third
  \<open>gl_PointCoord\<close>.
\<close>

definition particleFragmentShader_main :: "uniforms \<Rightarrow> vec3 \<Rightarrow> real \<times> real \<Rightarrow> vec3 \<times> real" where
  "particleFragmentShader_main u c pc = (let p = (fst pc - 0.5, snd pc - 0.5);
     r = sqrt (fst p * fst p + snd p * snd p)
   in (dynamicColor u c, 1.0 - smoothstep 0.4 0.5 r))"

text \<open>
  \<open>createParticles\<close> fills the three buffers: a random position (the draws of
  \<open>Math.random\<close> are the first argument), the blue base colour and the particle's own
  index. The result is the attribute set of particle \<open>i\<close>.
\<close>

definition createParticles :: "(nat \<Rightarrow> real) \<Rightarrow> nat \<Rightarrow> attributes" where
  "createParticles rnd i =
     \<lparr> position = Vec3 (rnd (i * 3 + 0) * 10 - 5) (rnd (i * 3 + 1) * 10 - 5) (rnd (i * 3 + 2) * 10 - 5),
       particleIndex = real i,
       customColor = Vec3 0.2 0.4 1.0 \<rparr>"

subsection \<open>The full variant: the control loop\<close>

text \<open>
  The script's globals and the uniforms of the material. \<open>getGestureData\<close> reads the
  wall clock up to three times; the readings are its first argument. JavaScript's \<open>%\<close>
  takes the sign of the dividend, which is \<open>smod\<close> on integers.
\<close>

record clock =
  now1 :: int
  now2 :: int
  now3 :: int

record app =
  templateID_g :: int
  expansionFactor_g :: real
  lastSwitchTime :: int
  material_uniforms :: uniforms

definition switched :: "clock \<Rightarrow> app \<Rightarrow> bool" where
  "switched c s = (now2 c - lastSwitchTime s > 6000)"

definition getGestureData :: "clock \<Rightarrow> app \<Rightarrow> app" where
  "getGestureData c s = (let t = real_of_int (now1 c) / 1000;
     pulse = sin (t * 1.5) * 0.5 + 0.5;
     s1 = s\<lparr>expansionFactor_g := 0.3 + pulse * 0.7\<rparr>
   in if switched c s1
      then s1\<lparr>templateID_g := (templateID_g s1 + 1) smod 4, lastSwitchTime := now3 c\<rparr>
      else s1)"

definition animate :: "clock \<Rightarrow> app \<Rightarrow> app" where
  "animate c s = (let s1 = getGestureData c s;
     u = material_uniforms s1
   in s1\<lparr>material_uniforms :=
        u\<lparr>time := time u + 0.01,
          expansionFactor := expansionFactor_g s1,
          templateID := real_of_int (templateID_g s1)\<rparr>\<rparr>)"

text \<open>Successive frames, and the number of them in which the template was switched.\<close>

fun frames :: "clock list \<Rightarrow> app \<Rightarrow> app" where
  "frames [] s = s"
| "frames (c # cs) s = frames cs (animate c s)"

fun switches :: "clock list \<Rightarrow> app \<Rightarrow> nat" where
  "switches [] s = 0"
| "switches (c # cs) s = (if switched c s then 1 else 0) + switches cs (animate c s)"

text \<open>The state after \<open>init\<close>: the globals as declared, the uniforms as \<open>createParticles\<close> sets them.\<close>

definition init :: "int \<Rightarrow> mat4 \<Rightarrow> mat4 \<Rightarrow> app" where
  "init loaded mv pr =
     \<lparr> templateID_g = 0, expansionFactor_g = 0.5, lastSwitchTime = loaded,
       material_uniforms = \<lparr> time = 0.0, templateID = 0, expansionFactor = 0.5,
                             modelViewMatrix = mv, projectionMatrix = pr \<rparr> \<rparr>"

subsection \<open>The reduced variant of main.js\<close>

record uniforms_js =
  uTime :: real
  uTemplate :: real
  uExpand :: real
  modelViewMatrix_js :: mat4
  projectionMatrix_js :: mat4

record attributes_js =
  position_js :: vec3
  aIndex :: real

definition getShape :: "real \<Rightarrow> real \<Rightarrow> vec3 option" where
  "getShape ident i = (let angle = i * 6.28318 in
     if ident < 0.5 then do {
       c \<leftarrow> pow (sin angle) 3.0;
       let x = 16.0 * c;
       let y = 13.0 * cos angle - 5.0 * cos (2.0 * angle) - 2.0 * cos (3.0 * angle)
               - cos (4.0 * angle);
       Some (vscale (Vec3 x y 0.0) 0.4)
     }
     else if ident < 1.5 then
       (let r = 5.0 + 2.0 * sin (angle * 6.0)
        in Some (Vec3 (r * cos angle) (r * sin angle) (sin (i * 10.0))))
     else
       (let r = 8.0
        in Some (Vec3 (r * cos angle) (r * sin angle * 0.3) (r * sin angle))))"

definition vShader_targetPos :: "uniforms_js \<Rightarrow> attributes_js \<Rightarrow> vec3 option" where
  "vShader_targetPos u a = do {
     targetPos \<leftarrow> getShape (uTemplate u) (aIndex a / 20000.0);
     Some (vscale targetPos (1.0 + uExpand u * 2.0))
   }"

definition vShader_main :: "uniforms_js \<Rightarrow> attributes_js \<Rightarrow> vertex_out option" where
  "vShader_main u a = do {
     targetPos \<leftarrow> vShader_targetPos u a;
     let mvPosition = mat_vec (modelViewMatrix_js u) (vec4_of targetPos 1.0);
     q \<leftarrow> fdiv 100.0 (- wz mvPosition);
     Some \<lparr> gl_Position = mat_vec (projectionMatrix_js u) mvPosition,
            gl_PointSize = 4.0 * q,
            vColor = Vec3 (0.5 + 0.5 * sin (uTime u + vx targetPos)) 0.7 1.0 \<rparr>
   }"

text \<open>
  JavaScript's \<open>%\<close> on numbers truncates the quotient towards zero. The argument of
  \<open>animate_js\<close> is the reading of \<open>performance.now()\<close>, in milliseconds.
\<close>

definition js_rem :: "real \<Rightarrow> real \<Rightarrow> real" where
  "js_rem x y = x - y * of_int (if x / y < 0 then \<lceil>x / y\<rceil> else \<lfloor>x / y\<rfloor>)"

definition animate_js :: "real \<Rightarrow> uniforms_js \<Rightarrow> uniforms_js" where
  "animate_js now u = (let t = now * 0.001
   in u\<lparr>uTime := t, uExpand := \<bar>sin t\<bar>,
        uTemplate := of_int \<lfloor>js_rem (t / 4.0) 3\<rfloor>\<rparr>)"

subsection \<open>A concrete scene\<close>

text \<open>
  The camera of \<open>init\<close> sits at \<open>z = 10\<close> and looks at the origin, so the model-view
  matrix is a translation along \<open>z\<close>; the projection is left as the identity.
\<close>

definition mat4_identity :: mat4 where
  "mat4_identity = Mat4 (Vec4 1 0 0 0) (Vec4 0 1 0 0) (Vec4 0 0 1 0) (Vec4 0 0 0 1)"

definition camera_view :: "real \<Rightarrow> mat4" where
  "camera_view z = Mat4 (Vec4 1 0 0 0) (Vec4 0 1 0 0) (Vec4 0 0 1 0) (Vec4 0 0 (- z) 1)"

definition scene0 :: app where
  "scene0 = init 0 (camera_view 10) mat4_identity"

text \<open>Particle 0 as \<open>createParticles\<close> makes it when the three random draws are one half.\<close>

definition first_particle :: attributes where
  "first_particle = \<lparr> position = Vec3 0 0 0, particleIndex = 0, customColor = Vec3 0.2 0.4 1.0 \<rparr>"

text \<open>A frame in which the three clock readings agree.\<close>

definition tick :: "int \<Rightarrow> clock" where
  "tick t = \<lparr> now1 = t, now2 = t, now3 = t \<rparr>"

section \<open>Properties\<close>

subsection \<open>Lengths and scaling\<close>

lemma vlength_nonneg: "0 \<le> vlength p"
  by (simp add: vlength_def)

lemma vlength_vscale: "vlength (vscale p s) = \<bar>s\<bar> * vlength p"
proof -
  have "vx p * s * (vx p * s) + vy p * s * (vy p * s) + vz p * s * (vz p * s)
        = s\<^sup>2 * (vx p * vx p + vy p * vy p + vz p * vz p)"
    by (simp add: power2_eq_square algebra_simps)
  then show ?thesis
    by (simp add: vlength_def vscale_def real_sqrt_mult)
qed

lemma expansion_scale_mono:
  assumes "0 \<le> g" "0 \<le> e1" "e1 \<le> e2"
  shows "vlength (vscale p (1 + e1 * g)) \<le> vlength (vscale p (1 + e2 * g))"
proof -
  have "e1 * g \<le> e2 * g" using assms by (simp add: mult_right_mono)
  moreover have "0 \<le> e1 * g" using assms by simp
  ultimately have "\<bar>1 + e1 * g\<bar> \<le> \<bar>1 + e2 * g\<bar>" by simp
  then show ?thesis
    unfolding vlength_vscale by (simp add: mult_right_mono vlength_nonneg)
qed

lemma normalize_v_zero: "normalize_v (Vec3 0 0 0) = None"
  by (simp add: normalize_v_def fdiv_def vlength_def)

lemma flowerShape_0: "flowerShape 0 = Vec3 1.5 0 0.75"
  by (simp add: flowerShape_def vscale_def)

lemma getShape_flower_0: "getShape 1 0 = Some (Vec3 5 0 0)"
  by (simp add: getShape_def)

lemma scene0_uniforms:
  "material_uniforms scene0 = \<lparr> time = 0, templateID = 0, expansionFactor = 0.5,
      modelViewMatrix = camera_view 10, projectionMatrix = mat4_identity \<rparr>"
  by (simp add: scene0_def init_def)

lemma first_particle_created: "createParticles (\<lambda>n. 1 / 2) 0 = first_particle"
  by (simp add: createParticles_def first_particle_def)

lemma scene0_globals: "templateID_g scene0 = 0" "lastSwitchTime scene0 = 0"
  by (simp_all add: scene0_def init_def)

subsection \<open>Bounds on pi and on the sine\<close>

text \<open>
  The shaders write \<open>2 * pi\<close> as a decimal literal, so what happens at the wrap depends
  on how close the literal is. The bounds come from the Taylor polynomial of the sine
  near \<open>pi / 6\<close>, where the sine is one half.
\<close>

lemma sin_poly15: "(\<Sum>m<15. sin_coeff m * x ^ m) =
   x - x^3/6 + x^5/120 - x^7/5040 + x^9/362880 - x^11/39916800 + x^13/6227020800" for x :: real
  by (simp add: sin_coeff_def lessThan_nat_numeral lessThan_Suc fact_numeral)

lemma fact15: "inverse (fact 15 :: real) * y = y / 1307674368000"
  by (simp add: fact_numeral)

lemma sin_enclosure:
  "\<bar>sin x - (x - x^3/6 + x^5/120 - x^7/5040 + x^9/362880 - x^11/39916800 + x^13/6227020800)\<bar>
     \<le> \<bar>x\<bar> ^ 15 / 1307674368000" for x :: real
  using Maclaurin_sin_bound [of x 15] unfolding sin_poly15 fact15 .

lemma sin_below_half: "sin (52359877559 / 10^11 :: real) < 1/2"
proof -
  have "(let x = (52359877559 / 10^11 :: real) in
      (x - x^3/6 + x^5/120 - x^7/5040 + x^9/362880 - x^11/39916800 + x^13/6227020800)
        + \<bar>x\<bar> ^ 15 / 1307674368000) < 1/2"
    by (simp add: Let_def power_divide)
  then show ?thesis
    using sin_enclosure [of "52359877559 / 10^11"] unfolding Let_def by linarith
qed

lemma sin_above_half: "1/2 < sin (5235987756 / 10^10 :: real)"
proof -
  have "1/2 < (let x = (5235987756 / 10^10 :: real) in
      (x - x^3/6 + x^5/120 - x^7/5040 + x^9/362880 - x^11/39916800 + x^13/6227020800)
        - \<bar>x\<bar> ^ 15 / 1307674368000)"
    by (simp add: Let_def power_divide)
  then show ?thesis
    using sin_enclosure [of "5235987756 / 10^10"] unfolding Let_def by linarith
qed

lemma pi_lower: "3.14159265354 < pi"
proof (rule ccontr)
  assume "\<not> 3.14159265354 < pi"
  then have le: "pi / 6 \<le> 52359877559 / 10^11" by simp
  have "sin (pi / 6) \<le> sin (52359877559 / 10^11)"
    using le pi_ge_two by (intro sin_monotone_2pi_le) simp_all
  with sin_below_half show False by (simp add: sin_30)
qed

lemma pi_upper: "pi < 3.1415926536"
proof (rule ccontr)
  assume "\<not> pi < 3.1415926536"
  then have le: "5235987756 / 10^10 \<le> pi / 6" by simp
  have "sin (5235987756 / 10^10) \<le> sin (pi / 6)"
    using le pi_ge_two by (intro sin_monotone_2pi_le) simp_all
  with sin_above_half show False by (simp add: sin_30)
qed

lemma two_pi_literal: "6.283185307 < 2 * pi" "2 * pi - 6.283185307 \<le> 1 / 10^9"
  using pi_lower pi_upper by simp_all

lemma two_pi_literal_js: "6.28318 < 2 * pi" "2 * pi - 6.28318 \<le> 6 / 10^6"
  using pi_lower pi_upper by simp_all

lemma sin_ge_half:
  assumes "5235987756 / 10^10 \<le> x" "x \<le> pi / 2"
  shows "1 / 2 < sin x"
proof -
  have "sin (5235987756 / 10^10) \<le> sin x"
    using assms pi_ge_two by (intro sin_monotone_2pi_le) simp_all
  then show ?thesis using sin_above_half by simp
qed

lemma sin_4_neg: "sin (4::real) < 0"
  using pi_lower pi_upper by (intro sin_lt_zero) simp_all

lemma sin_lipschitz: "\<bar>sin x - sin y\<bar> \<le> \<bar>x - y\<bar>" for x y :: real
proof -
  have "\<bar>sin x - sin y\<bar> = 2 * \<bar>sin ((x - y) / 2)\<bar> * \<bar>cos ((x + y) / 2)\<bar>"
    by (simp add: sin_diff_sin abs_mult)
  also have "\<dots> \<le> 2 * \<bar>(x - y) / 2\<bar> * 1"
    by (intro mult_mono mult_left_mono abs_sin_x_le_abs_x abs_cos_le_one) simp_all
  finally show ?thesis by simp
qed

lemma cos_lipschitz: "\<bar>cos x - cos y\<bar> \<le> \<bar>x - y\<bar>" for x y :: real
proof -
  have "\<bar>cos x - cos y\<bar> = 2 * \<bar>sin ((x + y) / 2)\<bar> * \<bar>sin ((y - x) / 2)\<bar>"
    by (simp add: cos_diff_cos abs_mult)
  also have "\<dots> \<le> 2 * 1 * \<bar>(y - x) / 2\<bar>"
    by (intro mult_mono mult_left_mono abs_sin_x_le_abs_x abs_sin_le_one) simp_all
  finally show ?thesis by simp
qed

lemma sin_small: "\<bar>sin (k * d)\<bar> \<le> \<bar>k\<bar> * \<bar>d\<bar>" for k d :: real
  using abs_sin_x_le_abs_x [of "k * d"] by (simp add: abs_mult)

lemma cos_small: "\<bar>cos (k * d) - 1\<bar> \<le> \<bar>k\<bar> * \<bar>d\<bar>" for k d :: real
  using cos_lipschitz [of "k * d" 0] by (simp add: abs_mult)

lemma sin_turns: "sin (x + 2 * pi * real n) = sin x"
proof -
  have e: "x + 2 * pi * real n = x + real (2 * n) * pi" by simp
  show ?thesis unfolding e sin_add sin_npi cos_npi by simp
qed

lemma cos_turns: "cos (x + 2 * pi * real n) = cos x"
proof -
  have e: "x + 2 * pi * real n = x + real (2 * n) * pi" by simp
  show ?thesis unfolding e cos_add sin_npi cos_npi by simp
qed

subsection \<open>The firework direction of the first particle\<close>

text \<open>
  C1. Every shape function is to return a finite vector at the sampled indices, and the
  firework direction is to be well defined for every particle, index 0 included. For
  particle 0 all three components of the vector handed to \<open>normalize\<close> are
  \<open>sin 0 * cos 0 = 0\<close>, so \<open>normalize\<close> divides zero by the zero length: the firework
  has no direction there, whatever the time.
\<close>

theorem fireworkDirection_particle_zero:
  "fireworkDirection (a\<lparr>particleIndex := 0\<rparr>) = None"
  by (simp add: fireworkDirection_def normalize_v_zero)

text \<open>
  C9. The firework position is to be direction times
  \<open>speed * phase * (1 - phase) * amplitude\<close>, and near the origin at time 0 for every
  normalized index in \<open>[0, 1]\<close>. At normalized index 0, which is particle 0, the
  phase is 0 but the direction is undefined, and so is the position: it is not the origin.
\<close>

theorem fireworkShape_time_zero_index_zero:
  "mod_f (time (u\<lparr>time := 0\<rparr>) * 0.2 + (0 / particleCount) * 0.01) 1.0 = 0 \<and>
   fireworkShape (u\<lparr>time := 0\<rparr>) (a\<lparr>particleIndex := 0\<rparr>) (0 / particleCount) = None"
  by (simp add: fireworkShape_def fireworkDirection_def normalize_v_zero mod_f_def)

text \<open>
  What does hold of the firework: where the direction is defined it is a unit vector, so
  the length of the position is \<open>50 * phase * (1 - phase)\<close>, with the phase in
  \<open>[0, 1)\<close>; the product peaks at phase one half and nowhere else; at time 0 the length
  is at most one half. Particle 1 has a direction.
\<close>

lemma normalize_v_unit:
  assumes "normalize_v v = Some d"
  shows "vlength d = 1"
proof -
  have l: "vlength v \<noteq> 0" and d: "d = Vec3 (vx v / vlength v) (vy v / vlength v) (vz v / vlength v)"
    using assms by (auto simp: normalize_v_def fdiv_def split: if_splits)
  have pos: "0 \<le> vx v * vx v + vy v * vy v + vz v * vz v" by simp
  have sq: "vlength v * vlength v = vx v * vx v + vy v * vy v + vz v * vz v"
    unfolding vlength_def using pos by simp
  have "vx d * vx d + vy d * vy d + vz d * vz d
      = (vx v * vx v + vy v * vy v + vz v * vz v) / (vlength v * vlength v)"
    unfolding d by (simp add: add_divide_distrib)
  also have "\<dots> = (vlength v * vlength v) / (vlength v * vlength v)"
    unfolding sq ..
  also have "\<dots> = 1" using l by simp
  finally show ?thesis by (simp add: vlength_def)
qed

lemma mod_f_one: "0 \<le> mod_f x 1 \<and> mod_f x 1 < 1"
  unfolding mod_f_def by simp linarith

lemma fireworkShape_length:
  assumes "fireworkShape u a i = Some p"
  shows "vlength p = 50 * (mod_f (time u * 0.2 + i * 0.01) 1 * (1 - mod_f (time u * 0.2 + i * 0.01) 1))"
proof -
  define ph where "ph = mod_f (time u * 0.2 + i * 0.01) 1"
  obtain d where d: "fireworkDirection a = Some d"
    and p: "p = vadd (Vec3 0 0 0) (vscale (vscale (vscale (vscale d 5) ph) (1 - ph)) 10)"
    using assms by (auto simp: fireworkShape_def ph_def Let_def split: bind_splits)
  have "vlength d = 1" using d unfolding fireworkDirection_def by (rule normalize_v_unit)
  moreover have "vadd (Vec3 0 0 0) q = q" for q by (simp add: vadd_def)
  moreover have "0 \<le> ph" "0 \<le> 1 - ph" using mod_f_one [of "time u * 0.2 + i * 0.01"]
    unfolding ph_def by simp_all
  ultimately have "vlength p = 50 * (ph * (1 - ph))"
    unfolding p by (simp add: vlength_vscale abs_mult)
  then show ?thesis unfolding ph_def .
qed

lemma parabola_peak: "ph * (1 - ph) \<le> 1 / 4 \<and> (ph * (1 - ph) = 1 / 4 \<longleftrightarrow> ph = 1 / 2)" for ph :: real
proof -
  have e: "1 / 4 - ph * (1 - ph) = (ph - 1 / 2)\<^sup>2" by (simp add: power2_eq_square algebra_simps)
  have "0 \<le> (ph - 1 / 2)\<^sup>2" by simp
  then have "ph * (1 - ph) \<le> 1 / 4" unfolding e [symmetric] by simp
  moreover have "ph * (1 - ph) = 1 / 4 \<longleftrightarrow> (ph - 1 / 2)\<^sup>2 = 0"
    unfolding e [symmetric] by auto
  ultimately show ?thesis by simp
qed

lemma fireworkShape_time_zero:
  assumes "fireworkShape u a i = Some p" "time u = 0" "0 \<le> i" "i \<le> 1"
  shows "vlength p \<le> 1 / 2"
proof -
  have fl: "\<lfloor>i * 0.01\<rfloor> = 0" using assms(3,4) by (simp add: floor_eq_iff)
  have ph: "mod_f (time u * 0.2 + i * 0.01) 1 = i / 100"
    using assms(2) fl by (simp add: mod_f_def)
  have "vlength p = 50 * (i / 100 * (1 - i / 100))"
    using fireworkShape_length [OF assms(1)] unfolding ph .
  also have "\<dots> \<le> 50 * (1 / 100 * 1)"
    using assms(3,4) by (intro mult_left_mono mult_mono) simp_all
  finally show ?thesis by simp
qed

lemma fireworkDirection_particle_one:
  "fireworkDirection (a\<lparr>particleIndex := 1\<rparr>) \<noteq> None"
proof -
  have "0 < sin (1.23::real)" using pi_lower by (intro sin_gt_zero) simp_all
  moreover have "0 < cos (3.45 - pi)" using pi_lower pi_upper by (intro cos_gt_zero) simp_all
  then have "cos (3.45::real) < 0" by (simp add: cos_diff)
  ultimately have nz: "sin (1.23::real) * cos 3.45 \<noteq> 0" by simp
  let ?v = "Vec3 (sin 1.23 * cos 3.45) (sin 5.67 * cos 7.89) (sin 9.01 * cos 2.34)"
  have "0 < (sin (1.23::real) * cos 3.45) * (sin 1.23 * cos 3.45)"
    using nz not_real_square_gt_zero by blast
  then have "0 < vx ?v * vx ?v + vy ?v * vy ?v + vz ?v * vz ?v"
    by (simp add: add_pos_nonneg)
  then have "vlength ?v \<noteq> 0" unfolding vlength_def by simp
  then show ?thesis by (simp add: fireworkDirection_def normalize_v_def fdiv_def)
qed

text \<open>
  C4. A template id outside \<open>{0, 1, 2, 3}\<close> does select a shape: the chain of comparisons
  sends every id below 0.5 to the heart and every id of 2.5 or more to the firework. The
  id 4 is therefore drawn as a firework, and particle 0 of it has no defined position.
\<close>

theorem main_position_template_four_particle_zero:
  "templateSwitch (u\<lparr>templateID := 4\<rparr>) (a\<lparr>particleIndex := 0\<rparr>) p0
     = fireworkShape (u\<lparr>templateID := 4\<rparr>) (a\<lparr>particleIndex := 0\<rparr>) 0 \<and>
   main_position (u\<lparr>templateID := 4\<rparr>) (a\<lparr>particleIndex := 0\<rparr>) = None"
  by (simp add: main_position_def templateSwitch_def fireworkShape_def fireworkDirection_def
      normalize_v_zero)

text \<open>The defaults of the chain: ids below the known set are the heart, ids above it the firework.\<close>

lemma templateSwitch_defaults:
  "templateID u < 0 \<Longrightarrow> templateSwitch u a p0 = heartShape (particleIndex a / particleCount)"
  "3 < templateID u \<Longrightarrow> templateSwitch u a p0 = fireworkShape u a (particleIndex a / particleCount)"
  by (simp_all add: templateSwitch_def)

subsection \<open>The heart over the second half of the indices\<close>

text \<open>
  The heart's \<open>x\<close> is \<open>16 * pow(sin(angle), 3.0)\<close>. From normalized index 0.51 up to 1
  the sine is negative and \<open>pow\<close> is undefined, in both variants.
\<close>

lemma heartShape_undefined:
  assumes "51 / 100 \<le> i" "i \<le> 1"
  shows "heartShape i = None" "getShape 0 i = None"
proof -
  have "pi < i * 6.283185307" using assms(1) pi_upper by simp
  moreover have "i * 6.283185307 < 2 * pi" using assms(2) two_pi_literal(1) by simp
  ultimately have "sin (i * 6.283185307) < 0" by (rule sin_lt_zero)
  then show "heartShape i = None" by (simp add: heartShape_def pow_def)
  have "pi < i * 6.28318" using assms(1) pi_upper by simp
  moreover have "i * 6.28318 < 2 * pi" using assms(2) two_pi_literal_js(1) by simp
  ultimately have "sin (i * 6.28318) < 0" by (rule sin_lt_zero)
  then show "getShape 0 i = None" by (simp add: getShape_def pow_def)
qed

subsection \<open>The expansion transform\<close>

lemma templateSwitch_expansion:
  "templateSwitch (u\<lparr>expansionFactor := e\<rparr>) a p0 = templateSwitch u a p0"
  by (simp add: templateSwitch_def fireworkShape_def saturnShape_def)

lemma main_position_expansion:
  "main_position (u\<lparr>expansionFactor := e\<rparr>) a =
     map_option (\<lambda>p. vscale p (1 + e * 3)) (templateSwitch u a (position a))"
  by (cases "templateSwitch u a (position a)")
     (simp_all add: main_position_def templateSwitch_expansion)

lemma vShader_targetPos_expansion:
  "vShader_targetPos (u\<lparr>uExpand := e\<rparr>) a =
     map_option (\<lambda>p. vscale p (1 + e * 2)) (getShape (uTemplate u) (aIndex a / 20000))"
  by (cases "getShape (uTemplate u) (aIndex a / 20000)")
     (simp_all add: vShader_targetPos_def)

text \<open>
  C5. The position after the expansion control is the shape position times
  \<open>1 + expansion * 3\<close> (times \<open>1 + expansion * 2\<close> in the reduced variant), whatever the
  template: the factor is the same for an arbitrary template id \<open>k\<close>, and in particular
  for each of the four shapes.
\<close>

theorem expansion_transform_uniform:
  "main_position (u\<lparr>templateID := k\<rparr>) a =
     map_option (\<lambda>p. vscale p (1 + expansionFactor u * 3))
       (templateSwitch (u\<lparr>templateID := k\<rparr>) a (position a)) \<and>
   main_position (u\<lparr>templateID := 0\<rparr>) a =
     map_option (\<lambda>p. vscale p (1 + expansionFactor u * 3))
       (heartShape (particleIndex a / particleCount)) \<and>
   main_position (u\<lparr>templateID := 1\<rparr>) a =
     Some (vscale (flowerShape (particleIndex a / particleCount)) (1 + expansionFactor u * 3)) \<and>
   main_position (u\<lparr>templateID := 2\<rparr>) a =
     Some (vscale (saturnShape u (particleIndex a / particleCount)) (1 + expansionFactor u * 3)) \<and>
   main_position (u\<lparr>templateID := 3\<rparr>) a =
     map_option (\<lambda>p. vscale p (1 + expansionFactor u * 3))
       (fireworkShape u a (particleIndex a / particleCount)) \<and>
   vShader_targetPos (uj\<lparr>uTemplate := k\<rparr>) aj =
     map_option (\<lambda>p. vscale p (1 + uExpand uj * 2)) (getShape k (aIndex aj / 20000))"
proof -
  have gen: "main_position v a =
      map_option (\<lambda>p. vscale p (1 + expansionFactor v * 3)) (templateSwitch v a (position a))"
    for v
    using main_position_expansion [where u = v and e = "expansionFactor v" and a = a] by simp
  have js: "vShader_targetPos (uj\<lparr>uTemplate := k\<rparr>) aj =
     map_option (\<lambda>p. vscale p (1 + uExpand uj * 2)) (getShape k (aIndex aj / 20000))"
    using vShader_targetPos_expansion [where u = "uj\<lparr>uTemplate := k\<rparr>" and e = "uExpand uj" and a = aj]
    by simp
  have sat: "saturnShape (u\<lparr>templateID := 2\<rparr>) i = saturnShape u i" for i
    by (simp add: saturnShape_def)
  have fw: "fireworkShape (u\<lparr>templateID := 3\<rparr>) a i = fireworkShape u a i" for i
    by (simp add: fireworkShape_def)
  show ?thesis
    by (simp add: gen js templateSwitch_def sat fw)
qed

text \<open>
  C6. For a fixed template, time and particle, the length of the final position does not
  decrease when the expansion grows within \<open>[0, 1]\<close>; where the shape is undefined it is
  so for both expansions. The same holds in the reduced variant, whose gain is 2.
\<close>

theorem expansion_monotone:
  assumes "0 \<le> e1" "e1 \<le> e2" "e2 \<le> 1"
  shows "rel_option (\<lambda>p1 p2. vlength p1 \<le> vlength p2)
           (main_position (u\<lparr>expansionFactor := e1\<rparr>) a)
           (main_position (u\<lparr>expansionFactor := e2\<rparr>) a) \<and>
         rel_option (\<lambda>p1 p2. vlength p1 \<le> vlength p2)
           (vShader_targetPos (uj\<lparr>uExpand := e1\<rparr>) aj)
           (vShader_targetPos (uj\<lparr>uExpand := e2\<rparr>) aj)"
proof
  show "rel_option (\<lambda>p1 p2. vlength p1 \<le> vlength p2)
           (main_position (u\<lparr>expansionFactor := e1\<rparr>) a)
           (main_position (u\<lparr>expansionFactor := e2\<rparr>) a)"
  proof (cases "templateSwitch u a (position a)")
    case None
    then show ?thesis by (simp add: main_position_expansion)
  next
    case (Some p)
    then show ?thesis
      using expansion_scale_mono [of 3 e1 e2 p] assms
      by (simp add: main_position_expansion)
  qed
  show "rel_option (\<lambda>p1 p2. vlength p1 \<le> vlength p2)
           (vShader_targetPos (uj\<lparr>uExpand := e1\<rparr>) aj)
           (vShader_targetPos (uj\<lparr>uExpand := e2\<rparr>) aj)"
  proof (cases "getShape (uTemplate uj) (aIndex aj / 20000)")
    case None
    then show ?thesis by (simp add: vShader_targetPos_expansion)
  next
    case (Some p)
    then show ?thesis
      using expansion_scale_mono [of 2 e1 e2 p] assms
      by (simp add: vShader_targetPos_expansion)
  qed
qed

theorem expansion_monotone_witness:
  "(0::real) \<le> 0 \<and> (0::real) \<le> 1 \<and> (1::real) \<le> 1 \<and>
   main_position (material_uniforms scene0\<lparr>templateID := 1, expansionFactor := 0\<rparr>)
     first_particle = Some (Vec3 1.5 0 0.75) \<and>
   main_position (material_uniforms scene0\<lparr>templateID := 1, expansionFactor := 1\<rparr>)
     first_particle = Some (Vec3 6 0 3) \<and>
   vlength (Vec3 1.5 0 0.75) \<le> vlength (Vec3 6 0 3)"
  using expansion_monotone [where ?e1.0 = 0 and ?e2.0 = 1
      and u = "material_uniforms scene0\<lparr>templateID := 1\<rparr>"
      and a = first_particle
      and uj = "\<lparr>uTime = 0, uTemplate = 1, uExpand = 0, modelViewMatrix_js = camera_view 15,
                  projectionMatrix_js = mat4_identity\<rparr>"
      and aj = "\<lparr>position_js = Vec3 0 0 0, aIndex = 0\<rparr>"]
  by (simp add: main_position_def templateSwitch_def scene0_uniforms first_particle_def
      flowerShape_0 vscale_def)

subsection \<open>The position buffer\<close>

text \<open>
  C10. What the vertex shader emits (clip position, point size and colour) does not depend
  on the stored position: two attribute sets that differ only there give the same output,
  and so do two particle sets created from different random draws; the fragment colour
  computed from that output is then the same too. The reduced variant never reads the
  position attribute at all.
\<close>

theorem position_buffer_irrelevant:
  "particleVertexShader_main u (a\<lparr>position := p\<rparr>) = particleVertexShader_main u (a\<lparr>position := q\<rparr>) \<and>
   particleVertexShader_main u (createParticles r1 i) = particleVertexShader_main u (createParticles r2 i) \<and>
   map_option (\<lambda>out. particleFragmentShader_main u (vColor out) pc)
       (particleVertexShader_main u (a\<lparr>position := p\<rparr>)) =
     map_option (\<lambda>out. particleFragmentShader_main u (vColor out) pc)
       (particleVertexShader_main u (a\<lparr>position := q\<rparr>)) \<and>
   vShader_main uj (aj\<lparr>position_js := p\<rparr>) = vShader_main uj (aj\<lparr>position_js := q\<rparr>)"
  by (simp add: particleVertexShader_main_def main_position_def templateSwitch_def
      fireworkShape_def fireworkDirection_def createParticles_def vShader_main_def
      vShader_targetPos_def)

subsection \<open>The expansion is used as given\<close>

text \<open>
  C3, as stated: expansion 1.5 gives the position of 1.0, and -0.3 that of 0.0. For the
  flower's particle 0 the four positions are all different: the scale factors are
  5.5, 4, 0.1 and 1.
\<close>

theorem expansion_unclamped_counterexample:
  "main_position (material_uniforms scene0\<lparr>templateID := 1, expansionFactor := 1.5\<rparr>)
     first_particle = Some (Vec3 8.25 0 4.125) \<and>
   main_position (material_uniforms scene0\<lparr>templateID := 1, expansionFactor := 1.0\<rparr>)
     first_particle = Some (Vec3 6 0 3) \<and>
   main_position (material_uniforms scene0\<lparr>templateID := 1, expansionFactor := - 0.3\<rparr>)
     first_particle = Some (Vec3 0.15 0 0.075) \<and>
   main_position (material_uniforms scene0\<lparr>templateID := 1, expansionFactor := 0.0\<rparr>)
     first_particle = Some (Vec3 1.5 0 0.75)"
  by (simp add: main_position_def templateSwitch_def scene0_uniforms first_particle_def
      flowerShape_0 vscale_def)

lemma pulse_range: "0 \<le> sin x * 0.5 + 0.5 \<and> sin x * 0.5 + 0.5 \<le> (1::real)"
  using sin_ge_minus_one [of x] sin_le_one [of x] by linarith

lemma remap_range:
  assumes "0 \<le> p" "p \<le> 1"
  shows "0.3 \<le> 0.3 + p * 0.7 \<and> 0.3 + p * 0.7 \<le> (1::real)"
  using assms by simp

lemma getGestureData_expansion:
  "expansionFactor_g (getGestureData c s) =
     0.3 + (sin (real_of_int (now1 c) / 1000 * 1.5) * 0.5 + 0.5) * 0.7"
  by (simp add: getGestureData_def Let_def)

lemma animate_expansion:
  "expansionFactor (material_uniforms (animate c s)) = expansionFactor_g (getGestureData c s)"
  by (simp add: animate_def Let_def)

text \<open>
  C3, amended. No stage clamps the expansion: the render driver copies the control loop's
  value into the uniform, and the evaluator scales by \<open>1 + 3 * expansion\<close> for every
  real expansion. The value the control loop produces is
  \<open>0.3 + 0.7 * (0.5 + 0.5 * sin (1.5 * t))\<close>, which always lies in \<open>[0.3, 1]\<close>, where
  clamping to \<open>[0, 1]\<close> changes nothing; in the reduced variant it is \<open>\<bar>sin t\<bar>\<close>.
\<close>

theorem expansion_fed_unclamped:
  "expansionFactor (material_uniforms (animate c s)) =
     0.3 + (sin (real_of_int (now1 c) / 1000 * 1.5) * 0.5 + 0.5) * 0.7 \<and>
   0.3 \<le> expansionFactor (material_uniforms (animate c s)) \<and>
   expansionFactor (material_uniforms (animate c s)) \<le> 1.0 \<and>
   clamp (expansionFactor (material_uniforms (animate c s))) 0 1
     = expansionFactor (material_uniforms (animate c s)) \<and>
   uExpand (animate_js now uj) = \<bar>sin (now * 0.001)\<bar> \<and>
   clamp (uExpand (animate_js now uj)) 0 1 = uExpand (animate_js now uj) \<and>
   main_position (u\<lparr>expansionFactor := e\<rparr>) a =
     map_option (\<lambda>p. vscale p (1 + e * 3)) (templateSwitch u a (position a)) \<and>
   vShader_targetPos (uj\<lparr>uExpand := e\<rparr>) aj =
     map_option (\<lambda>p. vscale p (1 + e * 2)) (getShape (uTemplate uj) (aIndex aj / 20000))"
proof -
  let ?x = "real_of_int (now1 c) / 1000 * 1.5"
  have e: "expansionFactor (material_uniforms (animate c s)) = 0.3 + (sin ?x * 0.5 + 0.5) * 0.7"
    by (simp add: animate_expansion getGestureData_expansion)
  have lo: "0.3 \<le> 0.3 + (sin ?x * 0.5 + 0.5) * 0.7"
    using pulse_range [of ?x] remap_range [of "sin ?x * 0.5 + 0.5"] by simp
  have hi: "0.3 + (sin ?x * 0.5 + 0.5) * 0.7 \<le> 1.0"
    using pulse_range [of ?x] remap_range [of "sin ?x * 0.5 + 0.5"] by simp
  have cl: "clamp (0.3 + (sin ?x * 0.5 + 0.5) * 0.7) 0 1 = 0.3 + (sin ?x * 0.5 + 0.5) * 0.7"
    using lo hi by (simp add: clamp_def)
  have j: "uExpand (animate_js now uj) = \<bar>sin (now * 0.001)\<bar>"
    by (simp add: animate_js_def Let_def)
  have jc: "clamp \<bar>sin (now * 0.001)\<bar> 0 1 = \<bar>sin (now * 0.001)\<bar>"
    by (simp add: clamp_def)
  show ?thesis
    unfolding e j using lo hi cl jc main_position_expansion vShader_targetPos_expansion
    by blast
qed

subsection \<open>The template selector\<close>

lemma smod_nonneg: "0 \<le> k \<Longrightarrow> k smod 4 = k mod (4::int)"
  by (simp add: signed_modulo_int_def sgn_if)

lemma switched_expansion:
  "switched c (s\<lparr>expansionFactor_g := e\<rparr>) = switched c s"
  by (simp add: switched_def)

lemma getGestureData_templateID:
  "templateID_g (getGestureData c s) =
     (if switched c s then (templateID_g s + 1) smod 4 else templateID_g s)"
  by (simp add: getGestureData_def Let_def switched_expansion)

lemma getGestureData_lastSwitchTime:
  "lastSwitchTime (getGestureData c s) = (if switched c s then now3 c else lastSwitchTime s)"
  by (simp add: getGestureData_def Let_def switched_expansion)

lemma animate_templateID:
  "templateID_g (animate c s) =
     (if switched c s then (templateID_g s + 1) smod 4 else templateID_g s)"
  by (simp add: animate_def Let_def getGestureData_templateID)

lemma animate_lastSwitchTime:
  "lastSwitchTime (animate c s) = (if switched c s then now3 c else lastSwitchTime s)"
  by (simp add: animate_def Let_def getGestureData_lastSwitchTime)

lemma animate_uniform_templateID:
  "templateID (material_uniforms (animate c s)) = real_of_int (templateID_g (animate c s))"
  by (simp add: animate_def Let_def)

lemma animate_templateID_mod:
  assumes "0 \<le> templateID_g s" "templateID_g s < 4"
  shows "templateID_g (animate c s) = (templateID_g s + (if switched c s then 1 else 0)) mod 4"
  using assms by (simp add: animate_templateID smod_nonneg)

lemma frames_templateID:
  assumes "0 \<le> templateID_g s" "templateID_g s < 4"
  shows "templateID_g (frames cs s) = (templateID_g s + int (switches cs s)) mod 4"
  using assms
proof (induction cs arbitrary: s)
  case Nil
  then show ?case by simp
next
  case (Cons c cs)
  let ?s = "animate c s"
  have step: "templateID_g ?s = (templateID_g s + (if switched c s then 1 else 0)) mod 4"
    using Cons.prems by (rule animate_templateID_mod)
  then have range: "0 \<le> templateID_g ?s" "templateID_g ?s < 4"
    by simp_all
  have "templateID_g (frames (c # cs) s) = (templateID_g ?s + int (switches cs ?s)) mod 4"
    using Cons.IH [OF range] by simp
  also have "\<dots> = (templateID_g s + int (switches (c # cs) s)) mod 4"
    unfolding step by (simp add: mod_add_left_eq add.assoc)
  finally show ?case .
qed

lemma floor_div3: "\<lfloor>q - 3 * real_of_int \<lfloor>q / 3\<rfloor>\<rfloor> = \<lfloor>q\<rfloor> mod 3" for q :: real
proof -
  have "\<lfloor>q / 3\<rfloor> = \<lfloor>q\<rfloor> div 3"
    using floor_divide_real_eq_div [of 3 q] by simp
  then have "\<lfloor>q - 3 * real_of_int \<lfloor>q / 3\<rfloor>\<rfloor> = \<lfloor>q\<rfloor> - 3 * (\<lfloor>q\<rfloor> div 3)"
    by (simp add: floor_diff_of_int [symmetric] del: floor_diff_of_int) 
  then show ?thesis by (simp add: minus_mult_div_eq_mod)
qed

lemma animate_js_template:
  assumes "0 \<le> now"
  shows "uTemplate (animate_js now u) = of_int (\<lfloor>now / 4000\<rfloor> mod 3)"
proof -
  have "\<not> now * 0.001 / 4.0 / 3 < 0" using assms by simp
  then have "js_rem (now * 0.001 / 4.0) 3 = now / 4000 - 3 * real_of_int \<lfloor>(now / 4000) / 3\<rfloor>"
    unfolding js_rem_def by simp
  moreover have "\<lfloor>now / 4000 - 3 * real_of_int \<lfloor>(now / 4000) / 3\<rfloor>\<rfloor> = \<lfloor>now / 4000\<rfloor> mod 3"
    by (rule floor_div3)
  ultimately show ?thesis
    by (simp add: animate_js_def Let_def)
qed


text \<open>
  C7. Starting from a selector in \<open>[0, 4)\<close> (it starts at 0), any sequence of frames
  keeps it there; a frame that switches advances it by one modulo 4 and any other frame
  leaves it alone, so after frames with exactly four switches it is back at its starting
  value; the uniform the shaders read is that integer. In the reduced variant the selector is \<open>floor ((t / 4) % 3)\<close> of the elapsed
  seconds: it lies in \<open>{0, 1, 2}\<close>, advances by one modulo 3 every 4 seconds and
  returns after three such steps.
\<close>

theorem template_selector_cyclic:
  assumes "0 \<le> templateID_g s" "templateID_g s < 4" "0 \<le> now"
  shows "0 \<le> templateID_g (frames cs s) \<and> templateID_g (frames cs s) < 4 \<and>
         templateID_g (animate c s) = (if switched c s then (templateID_g s + 1) mod 4 else templateID_g s) \<and>
         templateID_g (frames cs s) = (templateID_g s + int (switches cs s)) mod 4 \<and>
         (switches cs s = 4 \<longrightarrow> templateID_g (frames cs s) = templateID_g s) \<and>
         templateID (material_uniforms (animate c s)) = real_of_int (templateID_g (animate c s)) \<and>
         uTemplate (animate_js now uj) \<in> {0, 1, 2} \<and>
         uTemplate (animate_js (now + 4000) uj)
           = real_of_int ((\<lfloor>uTemplate (animate_js now uj)\<rfloor> + 1) mod 3) \<and>
         uTemplate (animate_js (now + 3 * 4000) uj) = uTemplate (animate_js now uj)"
proof -
  have f: "templateID_g (frames cs s) = (templateID_g s + int (switches cs s)) mod 4"
    using assms(1,2) by (rule frames_templateID)
  have r: "0 \<le> templateID_g (frames cs s) \<and> templateID_g (frames cs s) < 4"
    unfolding f by simp
  have one: "templateID_g (animate c s) = (if switched c s then (templateID_g s + 1) mod 4 else templateID_g s)"
    using assms(1,2) by (simp add: animate_templateID smod_nonneg)
  have four: "switches cs s = 4 \<longrightarrow> templateID_g (frames cs s) = templateID_g s"
    unfolding f using assms(1,2) by simp
  have j0: "uTemplate (animate_js now uj) = of_int (\<lfloor>now / 4000\<rfloor> mod 3)"
    using assms(3) by (rule animate_js_template)
  have "\<lfloor>now / 4000\<rfloor> mod 3 \<in> {0, 1, 2}"
    by (simp add: insert_commute) presburger
  then have j1: "uTemplate (animate_js now uj) \<in> {0, 1, 2}"
    unfolding j0 by auto
  have "\<lfloor>(now + 4000) / 4000\<rfloor> = \<lfloor>now / 4000\<rfloor> + 1"
    by (simp add: add_divide_distrib)
  then have j2: "uTemplate (animate_js (now + 4000) uj)
           = real_of_int ((\<lfloor>uTemplate (animate_js now uj)\<rfloor> + 1) mod 3)"
    using animate_js_template [of "now + 4000" uj] assms(3) unfolding j0
    by (simp add: mod_add_left_eq)
  have "\<lfloor>(now + 3 * 4000) / 4000\<rfloor> = \<lfloor>now / 4000\<rfloor> + 3"
    by (simp add: add_divide_distrib)
  then have j3: "uTemplate (animate_js (now + 3 * 4000) uj) = uTemplate (animate_js now uj)"
    using animate_js_template [of "now + 3 * 4000" uj] assms(3) unfolding j0
    by simp
  show ?thesis using r one f four animate_uniform_templateID j1 j2 j3 by blast
qed

lemma switched_tick: "switched (tick t) s = (t - lastSwitchTime s > 6000)"
  by (simp add: switched_def tick_def)

lemma animate_tick_lastSwitchTime:
  "lastSwitchTime (animate (tick t) s) = (if t - lastSwitchTime s > 6000 then t else lastSwitchTime s)"
  by (simp add: animate_lastSwitchTime switched_tick) (simp add: tick_def)

theorem template_selector_cyclic_witness:
  "0 \<le> templateID_g scene0 \<and> templateID_g scene0 < 4 \<and> (0::real) \<le> 5000 \<and>
   switches [tick 7000, tick 14000, tick 21000, tick 28000] scene0 = 4 \<and>
   templateID_g (frames [tick 7000, tick 14000, tick 21000, tick 28000] scene0) = 0 \<and>
   templateID_g (animate (tick 7000) scene0) = 1 \<and>
   uTemplate (animate_js (5000 + 3 * 4000)
     \<lparr>uTime = 0, uTemplate = 0, uExpand = 0, modelViewMatrix_js = camera_view 15,
      projectionMatrix_js = mat4_identity\<rparr>) = 1"
proof -
  have sw: "switches [tick 7000, tick 14000, tick 21000, tick 28000] scene0 = 4"
    by (simp add: switched_tick animate_tick_lastSwitchTime scene0_globals)
  have js: "uTemplate (animate_js 5000
     \<lparr>uTime = 0, uTemplate = 0, uExpand = 0, modelViewMatrix_js = camera_view 15,
      projectionMatrix_js = mat4_identity\<rparr>) = 1"
    by (simp add: animate_js_def js_rem_def)
  show ?thesis
    using template_selector_cyclic [where s = scene0 and now = 5000
        and cs = "[tick 7000, tick 14000, tick 21000, tick 28000]" and c = "tick 7000"
        and uj = "\<lparr>uTime = 0, uTemplate = 0, uExpand = 0, modelViewMatrix_js = camera_view 15,
                   projectionMatrix_js = mat4_identity\<rparr>"] sw js
    by (simp add: scene0_globals switched_tick)
qed

subsection \<open>The colour blend\<close>

text \<open>Every frame adds 0.01 to the time uniform, so the 400th frame runs at time 4.\<close>

lemma animate_time: "time (material_uniforms (animate c s)) = time (material_uniforms s) + 0.01"
  by (simp add: animate_def getGestureData_def Let_def)

lemma frames_time:
  "time (material_uniforms (frames cs s)) = time (material_uniforms s) + 0.01 * real (length cs)"
  by (induction cs arbitrary: s) (simp_all add: animate_time algebra_simps)

lemma dynamicColor_mix: "dynamicColor u c = mix c (accentColor u) (mixWeight u)"
  by (simp add: dynamicColor_def accentColor_def mixWeight_def)

text \<open>
  C8, as stated: the mix weight lies in \<open>[0, 1]\<close> for every template and time, so no
  channel leaves the range spanned by the base tint and the accent. For the heart at time
  4 (the 400th frame) the weight \<open>0.2 * sin 4\<close> is negative: the red channel of the
  default blue tint falls below both 0.2 and 1, and the blue one rises above both 1 and 0.
\<close>

theorem mix_weight_counterexample:
  "mixWeight (material_uniforms scene0\<lparr>time := 4\<rparr>) < 0 \<and>
   vx (dynamicColor (material_uniforms scene0\<lparr>time := 4\<rparr>) (Vec3 0.2 0.4 1.0)) < min 0.2 1.0 \<and>
   max 1.0 0.0 < vz (dynamicColor (material_uniforms scene0\<lparr>time := 4\<rparr>) (Vec3 0.2 0.4 1.0))"
  using sin_4_neg
  by (simp add: mixWeight_def dynamicColor_mix accentColor_def mix_def vadd_def vscale_def
      scene0_uniforms algebra_simps)

lemma mix_between:
  assumes "0 \<le> w" "w \<le> 1"
  shows "min x y \<le> x * (1 - w) + y * w \<and> x * (1 - w) + y * w \<le> max x (y::real)"
proof
  have w': "0 \<le> 1 - w" using assms by simp
  have "min x y * (1 - w) + min x y * w \<le> x * (1 - w) + y * w"
    by (intro add_mono mult_right_mono w' assms(1)) simp_all
  then show "min x y \<le> x * (1 - w) + y * w" by (simp add: algebra_simps)
  have "x * (1 - w) + y * w \<le> max x y * (1 - w) + max x y * w"
    by (intro add_mono mult_right_mono w' assms(1)) simp_all
  then show "x * (1 - w) + y * w \<le> max x y" by (simp add: algebra_simps)
qed

lemma mix_components:
  "vx (mix c d w) = vx c * (1 - w) + vx d * w"
  "vy (mix c d w) = vy c * (1 - w) + vy d * w"
  "vz (mix c d w) = vz c * (1 - w) + vz d * w"
  by (simp_all add: mix_def vadd_def vscale_def)

text \<open>
  C8, amended. For the firework the weight is \<open>0.5 + 0.5 * sin (5 * time)\<close>, which lies in
  \<open>[0, 1]\<close>, and every channel of the blend stays between the base tint and the accent.
  For every other template the weight is \<open>0.2 * sin time\<close>, which lies in
  \<open>[-0.2, 0.2]\<close>.
\<close>

theorem mix_weight_range:
  "(templateID u = 3 \<longrightarrow>
      mixWeight u = 0.5 + 0.5 * sin (5 * time u) \<and> 0 \<le> mixWeight u \<and> mixWeight u \<le> 1 \<and>
      min (vx c) 1.0 \<le> vx (dynamicColor u c) \<and> vx (dynamicColor u c) \<le> max (vx c) 1.0 \<and>
      min (vy c) 0.5 \<le> vy (dynamicColor u c) \<and> vy (dynamicColor u c) \<le> max (vy c) 0.5 \<and>
      min (vz c) 0.0 \<le> vz (dynamicColor u c) \<and> vz (dynamicColor u c) \<le> max (vz c) 0.0) \<and>
   (templateID u \<noteq> 3 \<longrightarrow>
      mixWeight u = 0.2 * sin (time u) \<and> - 0.2 \<le> mixWeight u \<and> mixWeight u \<le> 0.2)"
proof (intro conjI impI)
  assume t: "templateID u = 3"
  show w: "mixWeight u = 0.5 + 0.5 * sin (5 * time u)"
    using t by (simp add: mixWeight_def mult.commute)
  show lo: "0 \<le> mixWeight u" and hi: "mixWeight u \<le> 1"
    unfolding w using sin_ge_minus_one [of "5 * time u"] sin_le_one [of "5 * time u"]
    by linarith+
  have acc: "accentColor u = Vec3 1.0 0.5 0.0"
    using t by (simp add: accentColor_def)
  show "min (vx c) 1.0 \<le> vx (dynamicColor u c)" "vx (dynamicColor u c) \<le> max (vx c) 1.0"
       "min (vy c) 0.5 \<le> vy (dynamicColor u c)" "vy (dynamicColor u c) \<le> max (vy c) 0.5"
       "min (vz c) 0.0 \<le> vz (dynamicColor u c)" "vz (dynamicColor u c) \<le> max (vz c) 0.0"
    using mix_between [OF lo hi, of "vx c" "1.0"] mix_between [OF lo hi, of "vy c" "0.5"]
      mix_between [OF lo hi, of "vz c" "0.0"]
    by (simp_all add: dynamicColor_mix acc mix_components)
next
  assume t: "templateID u \<noteq> 3"
  show w: "mixWeight u = 0.2 * sin (time u)"
    using t by (simp add: mixWeight_def)
  show "- 0.2 \<le> mixWeight u" "mixWeight u \<le> 0.2"
    unfolding w using sin_ge_minus_one [of "time u"] sin_le_one [of "time u"]
    by linarith+
qed

theorem mix_weight_range_witness:
  "templateID (material_uniforms scene0\<lparr>templateID := 3\<rparr>) = 3 \<and>
   mixWeight (material_uniforms scene0\<lparr>templateID := 3\<rparr>) = 1 / 2 \<and>
   dynamicColor (material_uniforms scene0\<lparr>templateID := 3\<rparr>) (Vec3 0.2 0.4 1.0) = Vec3 0.6 0.45 0.5 \<and>
   templateID (material_uniforms scene0) \<noteq> 3 \<and>
   mixWeight (material_uniforms scene0) = 0"
  using mix_weight_range [of "material_uniforms scene0\<lparr>templateID := 3\<rparr>" "Vec3 0.2 0.4 1.0"]
    mix_weight_range [of "material_uniforms scene0" "Vec3 0.2 0.4 1.0"]
  by (simp add: scene0_uniforms mixWeight_def dynamicColor_mix accentColor_def mix_def vadd_def
      vscale_def)

subsection \<open>The wrap boundary\<close>

lemma rose_x_bound:
  fixes s c :: real
  assumes "\<bar>s\<bar> \<le> k * D" "\<bar>c\<bar> \<le> 1" "\<bar>c - 1\<bar> \<le> D" "0 \<le> b" "0 \<le> m"
  shows "\<bar>(b + m * s) * c - b\<bar> \<le> (b + m * k) * D"
proof -
  have "\<bar>s * c\<bar> \<le> \<bar>s\<bar> * 1"
    unfolding abs_mult by (intro mult_left_mono assms) simp
  then have sc: "\<bar>s * c\<bar> \<le> k * D" using assms(1) by simp
  have "(b + m * s) * c - b = b * (c - 1) + m * (s * c)" by (simp add: algebra_simps)
  then have "\<bar>(b + m * s) * c - b\<bar> \<le> \<bar>b * (c - 1)\<bar> + \<bar>m * (s * c)\<bar>"
    by (simp add: abs_triangle_ineq)
  also have "\<dots> = b * \<bar>c - 1\<bar> + m * \<bar>s * c\<bar>"
    using assms(4,5) by (simp add: abs_mult)
  also have "\<dots> \<le> b * D + m * (k * D)"
    by (intro add_mono mult_left_mono assms sc)
  finally show ?thesis by (simp add: algebra_simps)
qed

lemma rose_y_bound:
  fixes s t :: real
  assumes "\<bar>s\<bar> \<le> 1" "\<bar>t\<bar> \<le> D" "0 \<le> b" "0 \<le> m"
  shows "\<bar>(b + m * s) * t\<bar> \<le> (b + m) * D"
proof -
  have "\<bar>b + m * s\<bar> \<le> \<bar>b\<bar> + \<bar>m * s\<bar>" by (rule abs_triangle_ineq)
  also have "\<dots> = b + m * \<bar>s\<bar>" using assms(3,4) by (simp add: abs_mult)
  also have "\<dots> \<le> b + m * 1" by (intro add_mono mult_left_mono assms) simp
  finally have "\<bar>b + m * s\<bar> \<le> b + m" by simp
  moreover have "0 \<le> D" using assms(2) by linarith
  ultimately have "\<bar>b + m * s\<bar> * \<bar>t\<bar> \<le> (b + m) * D"
    using assms by (intro mult_mono) simp_all
  then show ?thesis by (simp add: abs_mult)
qed

lemma sin_wrap: "sin (real k * a) = sin (real k * (a - 2 * pi))"
  using sin_turns [of "real k * (a - 2 * pi)" k] by (simp add: algebra_simps)

lemma cos_wrap: "cos (real k * a) = cos (real k * (a - 2 * pi))"
  using cos_turns [of "real k * (a - 2 * pi)" k] by (simp add: algebra_simps)

lemma wrap_offset: "\<bar>(1 - e) * 6.283185307 - 2 * pi\<bar> \<le> 7 * \<bar>e\<bar> + 1 / 10^9"
proof -
  have "(1 - e) * 6.283185307 - 2 * pi = - (2 * pi - 6.283185307) + (- e) * 6.283185307"
    by (simp add: left_diff_distrib)
  then have "\<bar>(1 - e) * 6.283185307 - 2 * pi\<bar>
      \<le> \<bar>- (2 * pi - 6.283185307)\<bar> + \<bar>(- e) * 6.283185307\<bar>"
    by (simp only: abs_triangle_ineq)
  also have "\<bar>- (2 * pi - 6.283185307)\<bar> = 2 * pi - 6.283185307"
    using two_pi_literal(1) by simp
  also have "\<bar>(- e) * 6.283185307\<bar> = 6.283185307 * \<bar>e\<bar>"
    by (simp add: abs_mult)
  finally have "\<bar>(1 - e) * 6.283185307 - 2 * pi\<bar>
      \<le> (2 * pi - 6.283185307) + 6.283185307 * \<bar>e\<bar>" .
  moreover have "6.283185307 * \<bar>e\<bar> \<le> 7 * \<bar>e\<bar>"
    by (intro mult_right_mono) simp_all
  ultimately show ?thesis using two_pi_literal(2) by linarith
qed

lemma wrap_offset_js: "\<bar>(1 - e) * 6.28318 - 2 * pi\<bar> \<le> 7 * \<bar>e\<bar> + 6 / 10^6"
proof -
  have "(1 - e) * 6.28318 - 2 * pi = - (2 * pi - 6.28318) + (- e) * 6.28318"
    by (simp add: left_diff_distrib)
  then have "\<bar>(1 - e) * 6.28318 - 2 * pi\<bar>
      \<le> \<bar>- (2 * pi - 6.28318)\<bar> + \<bar>(- e) * 6.28318\<bar>"
    by (simp only: abs_triangle_ineq)
  also have "\<bar>- (2 * pi - 6.28318)\<bar> = 2 * pi - 6.28318"
    using two_pi_literal_js(1) by simp
  also have "\<bar>(- e) * 6.28318\<bar> = 6.28318 * \<bar>e\<bar>"
    by (simp add: abs_mult)
  finally have "\<bar>(1 - e) * 6.28318 - 2 * pi\<bar>
      \<le> (2 * pi - 6.28318) + 6.28318 * \<bar>e\<bar>" .
  moreover have "6.28318 * \<bar>e\<bar> \<le> 7 * \<bar>e\<bar>"
    by (intro mult_right_mono) simp_all
  ultimately show ?thesis using two_pi_literal_js(2) by linarith
qed

lemma scaled_bound:
  fixes T :: real
  assumes "X = c * T" "\<bar>T\<bar> \<le> k * D" "0 \<le> c"
  shows "\<bar>X\<bar> \<le> (c * k) * D"
proof -
  have "\<bar>X\<bar> = c * \<bar>T\<bar>" using assms(1,3) by (simp add: abs_mult)
  also have "\<dots> \<le> c * (k * D)" by (intro mult_left_mono assms)
  finally show ?thesis by (simp add: mult.assoc)
qed

lemma wrap_tol:
  fixes X :: real
  assumes "X \<le> K * D" "D \<le> 7 * E + 1 / 10^9" "0 \<le> K" "K \<le> 21 / 4" "0 \<le> E"
  shows "X \<le> 37 * E + 1 / 10^8"
proof -
  have "K * D \<le> K * (7 * E + 1 / 10^9)" by (intro mult_left_mono assms)
  also have "\<dots> \<le> (21 / 4) * (7 * E + 1 / 10^9)"
    using assms(5) by (intro mult_right_mono assms) simp
  also have "\<dots> \<le> 37 * E + 1 / 10^8" using assms(5) by simp
  finally show ?thesis using assms(1) by simp
qed

lemma wrap_tol_js:
  fixes X :: real
  assumes "X \<le> K * D" "D \<le> 7 * E + 6 / 10^6" "0 \<le> K" "K \<le> 17" "0 \<le> E"
  shows "X \<le> 120 * E + 2 / 10^4"
proof -
  have "K * D \<le> K * (7 * E + 6 / 10^6)" by (intro mult_left_mono assms)
  also have "\<dots> \<le> 17 * (7 * E + 6 / 10^6)"
    using assms(5) by (intro mult_right_mono assms) simp
  also have "\<dots> \<le> 120 * E + 2 / 10^4" using assms(5) by simp
  finally show ?thesis using assms(1) by simp
qed

lemma flowerShape_components:
  "vx (flowerShape i) = (1 + 0.5 * sin (real 5 * (i * 6.283185307))) * cos (real 1 * (i * 6.283185307)) * 1.5"
  "vy (flowerShape i) = (1 + 0.5 * sin (real 5 * (i * 6.283185307))) * sin (real 1 * (i * 6.283185307)) * 1.5"
  "vz (flowerShape i) = 0.75 * cos (real 3 * (i * 6.283185307))"
  by (simp_all add: flowerShape_def vscale_def Let_def mult.commute)

lemma saturnShape_components:
  "vx (saturnShape u i) = 2.5 * cos (real 1 * (i * 6.283185307))"
  "vy (saturnShape u i) = 2.5 * sin (real 1 * (i * 6.283185307))"
  "vz (saturnShape u i) = 0.1 * sin (0.5 * time u + 100 * i)"
  by (simp_all add: saturnShape_def Let_def mult.commute)

lemma flower_wrap:
  "\<bar>vx (flowerShape (1 - e)) - vx (flowerShape 0)\<bar> \<le> 37 * \<bar>e\<bar> + 1 / 10^8"
  "\<bar>vy (flowerShape (1 - e)) - vy (flowerShape 0)\<bar> \<le> 37 * \<bar>e\<bar> + 1 / 10^8"
  "\<bar>vz (flowerShape (1 - e)) - vz (flowerShape 0)\<bar> \<le> 37 * \<bar>e\<bar> + 1 / 10^8"
proof -
  define d where "d = (1 - e) * 6.283185307 - 2 * pi"
  have D: "\<bar>d\<bar> \<le> 7 * \<bar>e\<bar> + 1 / 10^9" unfolding d_def by (rule wrap_offset)
  have s5: "\<bar>sin (real 5 * d)\<bar> \<le> 5 * \<bar>d\<bar>" using sin_small [of 5 d] by simp
  have s1: "\<bar>sin (real 1 * d)\<bar> \<le> \<bar>d\<bar>" using sin_small [of 1 d] by simp
  have c1: "\<bar>cos (real 1 * d) - 1\<bar> \<le> \<bar>d\<bar>" using cos_small [of 1 d] by simp
  have c3: "\<bar>cos (real 3 * d) - 1\<bar> \<le> 3 * \<bar>d\<bar>" using cos_small [of 3 d] by simp
  have x: "vx (flowerShape (1 - e)) - vx (flowerShape 0)
        = 1.5 * ((1 + 0.5 * sin (real 5 * d)) * cos (real 1 * d) - 1)"
    unfolding flowerShape_components sin_wrap [of _ "(1 - e) * 6.283185307"]
      cos_wrap [of _ "(1 - e) * 6.283185307"] d_def [symmetric]
    by (simp add: algebra_simps)
  have "\<bar>(1 + 0.5 * sin (real 5 * d)) * cos (real 1 * d) - 1\<bar> \<le> (1 + 0.5 * 5) * \<bar>d\<bar>"
    by (intro rose_x_bound s5 c1) simp_all
  then have "\<bar>vx (flowerShape (1 - e)) - vx (flowerShape 0)\<bar> \<le> (1.5 * (1 + 0.5 * 5)) * \<bar>d\<bar>"
    by (intro scaled_bound [OF x]) simp_all
  then show "\<bar>vx (flowerShape (1 - e)) - vx (flowerShape 0)\<bar> \<le> 37 * \<bar>e\<bar> + 1 / 10^8"
    by (rule wrap_tol [OF _ D]) simp_all
  have y: "vy (flowerShape (1 - e)) - vy (flowerShape 0)
        = 1.5 * ((1 + 0.5 * sin (real 5 * d)) * sin (real 1 * d))"
    unfolding flowerShape_components sin_wrap [of _ "(1 - e) * 6.283185307"]
      cos_wrap [of _ "(1 - e) * 6.283185307"] d_def [symmetric]
    by (simp add: algebra_simps)
  have "\<bar>(1 + 0.5 * sin (real 5 * d)) * sin (real 1 * d)\<bar> \<le> (1 + 0.5) * \<bar>d\<bar>"
    by (intro rose_y_bound s1) simp_all
  then have "\<bar>vy (flowerShape (1 - e)) - vy (flowerShape 0)\<bar> \<le> (1.5 * (1 + 0.5)) * \<bar>d\<bar>"
    by (intro scaled_bound [OF y]) simp_all
  then show "\<bar>vy (flowerShape (1 - e)) - vy (flowerShape 0)\<bar> \<le> 37 * \<bar>e\<bar> + 1 / 10^8"
    by (rule wrap_tol [OF _ D]) simp_all
  have z: "vz (flowerShape (1 - e)) - vz (flowerShape 0) = 0.75 * (cos (real 3 * d) - 1)"
    unfolding flowerShape_components sin_wrap [of _ "(1 - e) * 6.283185307"]
      cos_wrap [of _ "(1 - e) * 6.283185307"] d_def [symmetric]
    by (simp add: algebra_simps)
  have "\<bar>vz (flowerShape (1 - e)) - vz (flowerShape 0)\<bar> \<le> (0.75 * 3) * \<bar>d\<bar>"
    by (intro scaled_bound [OF z] c3) simp_all
  then show "\<bar>vz (flowerShape (1 - e)) - vz (flowerShape 0)\<bar> \<le> 37 * \<bar>e\<bar> + 1 / 10^8"
    by (rule wrap_tol [OF _ D]) simp_all
qed

lemma saturn_wrap:
  "\<bar>vx (saturnShape u (1 - e)) - vx (saturnShape u 0)\<bar> \<le> 37 * \<bar>e\<bar> + 1 / 10^8"
  "\<bar>vy (saturnShape u (1 - e)) - vy (saturnShape u 0)\<bar> \<le> 37 * \<bar>e\<bar> + 1 / 10^8"
  "\<bar>vz (saturnShape u (1 - e)) - 0.1 * sin (0.5 * time u + 100)\<bar> \<le> 10 * \<bar>e\<bar>"
  "vz (saturnShape u 0) = 0.1 * sin (0.5 * time u)"
proof -
  define d where "d = (1 - e) * 6.283185307 - 2 * pi"
  have D: "\<bar>d\<bar> \<le> 7 * \<bar>e\<bar> + 1 / 10^9" unfolding d_def by (rule wrap_offset)
  have s1: "\<bar>sin (real 1 * d)\<bar> \<le> \<bar>d\<bar>" using sin_small [of 1 d] by simp
  have c1: "\<bar>cos (real 1 * d) - 1\<bar> \<le> \<bar>d\<bar>" using cos_small [of 1 d] by simp
  have x: "vx (saturnShape u (1 - e)) - vx (saturnShape u 0) = 2.5 * (cos (real 1 * d) - 1)"
    unfolding saturnShape_components sin_wrap [of _ "(1 - e) * 6.283185307"]
      cos_wrap [of _ "(1 - e) * 6.283185307"] d_def [symmetric]
    by (simp add: algebra_simps)
  have "\<bar>vx (saturnShape u (1 - e)) - vx (saturnShape u 0)\<bar> \<le> (2.5 * 1) * \<bar>d\<bar>"
    using c1 by (intro scaled_bound [OF x]) simp_all
  then show "\<bar>vx (saturnShape u (1 - e)) - vx (saturnShape u 0)\<bar> \<le> 37 * \<bar>e\<bar> + 1 / 10^8"
    by (rule wrap_tol [OF _ D]) simp_all
  have y: "vy (saturnShape u (1 - e)) - vy (saturnShape u 0) = 2.5 * sin (real 1 * d)"
    unfolding saturnShape_components sin_wrap [of _ "(1 - e) * 6.283185307"]
      cos_wrap [of _ "(1 - e) * 6.283185307"] d_def [symmetric]
    by (simp add: algebra_simps)
  have "\<bar>vy (saturnShape u (1 - e)) - vy (saturnShape u 0)\<bar> \<le> (2.5 * 1) * \<bar>d\<bar>"
    using s1 by (intro scaled_bound [OF y]) simp_all
  then show "\<bar>vy (saturnShape u (1 - e)) - vy (saturnShape u 0)\<bar> \<le> 37 * \<bar>e\<bar> + 1 / 10^8"
    by (rule wrap_tol [OF _ D]) simp_all
  have "\<bar>sin (0.5 * time u + 100 * (1 - e)) - sin (0.5 * time u + 100)\<bar>
      \<le> \<bar>(0.5 * time u + 100 * (1 - e)) - (0.5 * time u + 100)\<bar>"
    by (rule sin_lipschitz)
  also have "\<dots> = 100 * \<bar>e\<bar>" by (simp add: algebra_simps abs_mult)
  finally show "\<bar>vz (saturnShape u (1 - e)) - 0.1 * sin (0.5 * time u + 100)\<bar> \<le> 10 * \<bar>e\<bar>"
    unfolding saturnShape_components by simp
  show "vz (saturnShape u 0) = 0.1 * sin (0.5 * time u)"
    unfolding saturnShape_components by simp
qed

lemma getShape_flower:
  "getShape 1 i = Some (Vec3
     ((5 + 2 * sin (real 6 * (i * 6.28318))) * cos (real 1 * (i * 6.28318)))
     ((5 + 2 * sin (real 6 * (i * 6.28318))) * sin (real 1 * (i * 6.28318)))
     (sin (10 * i)))"
  by (simp add: getShape_def Let_def mult.commute)

lemma getShape_ring:
  "getShape 2 i = Some (Vec3
     (8 * cos (real 1 * (i * 6.28318)))
     (2.4 * sin (real 1 * (i * 6.28318)))
     (8 * sin (real 1 * (i * 6.28318))))"
  by (simp add: getShape_def Let_def mult.commute)

lemma getShape_wrap:
  "rel_option (\<lambda>p q. \<bar>vx p - vx q\<bar> \<le> 120 * \<bar>e\<bar> + 2 / 10^4 \<and>
                      \<bar>vy p - vy q\<bar> \<le> 120 * \<bar>e\<bar> + 2 / 10^4 \<and>
                      \<bar>vz p - sin 10\<bar> \<le> 10 * \<bar>e\<bar> \<and> vz q = 0)
     (getShape 1 (1 - e)) (getShape 1 0)"
  "rel_option (\<lambda>p q. \<bar>vx p - vx q\<bar> \<le> 120 * \<bar>e\<bar> + 2 / 10^4 \<and>
                      \<bar>vy p - vy q\<bar> \<le> 120 * \<bar>e\<bar> + 2 / 10^4 \<and>
                      \<bar>vz p - vz q\<bar> \<le> 120 * \<bar>e\<bar> + 2 / 10^4)
     (getShape 2 (1 - e)) (getShape 2 0)"
proof -
  define d where "d = (1 - e) * 6.28318 - 2 * pi"
  have D: "\<bar>d\<bar> \<le> 7 * \<bar>e\<bar> + 6 / 10^6" unfolding d_def by (rule wrap_offset_js)
  have s6: "\<bar>sin (real 6 * d)\<bar> \<le> 6 * \<bar>d\<bar>" using sin_small [of 6 d] by simp
  have s1: "\<bar>sin (real 1 * d)\<bar> \<le> 1 * \<bar>d\<bar>" using sin_small [of 1 d] by simp
  have c1: "\<bar>cos (real 1 * d) - 1\<bar> \<le> 1 * \<bar>d\<bar>" using cos_small [of 1 d] by simp
  note wrap = sin_wrap [of _ "(1 - e) * 6.28318"] cos_wrap [of _ "(1 - e) * 6.28318"]
    d_def [symmetric]
  have fx: "\<bar>(5 + 2 * sin (real 6 * d)) * cos (real 1 * d) - 5\<bar> \<le> (5 + 2 * 6) * \<bar>d\<bar>"
    using c1 by (intro rose_x_bound s6) simp_all
  have fy: "\<bar>(5 + 2 * sin (real 6 * d)) * sin (real 1 * d)\<bar> \<le> (5 + 2) * \<bar>d\<bar>"
    using s1 by (intro rose_y_bound) simp_all
  have fz: "\<bar>sin (10 * (1 - e)) - sin 10\<bar> \<le> 10 * \<bar>e\<bar>"
    using sin_lipschitz [of "10 * (1 - e)" 10] by (simp add: algebra_simps abs_mult)
  have "\<bar>(5 + 2 * sin (real 6 * d)) * cos (real 1 * d) - 5\<bar> \<le> 120 * \<bar>e\<bar> + 2 / 10^4"
    by (rule wrap_tol_js [OF fx D]) simp_all
  moreover have "\<bar>(5 + 2 * sin (real 6 * d)) * sin (real 1 * d)\<bar> \<le> 120 * \<bar>e\<bar> + 2 / 10^4"
    by (rule wrap_tol_js [OF fy D]) simp_all
  ultimately show "rel_option (\<lambda>p q. \<bar>vx p - vx q\<bar> \<le> 120 * \<bar>e\<bar> + 2 / 10^4 \<and>
                      \<bar>vy p - vy q\<bar> \<le> 120 * \<bar>e\<bar> + 2 / 10^4 \<and>
                      \<bar>vz p - sin 10\<bar> \<le> 10 * \<bar>e\<bar> \<and> vz q = 0)
     (getShape 1 (1 - e)) (getShape 1 0)"
    unfolding getShape_flower wrap using fz by simp
  have rx: "\<bar>8 * cos (real 1 * d) - 8\<bar> \<le> (8 * 1) * \<bar>d\<bar>"
    by (rule scaled_bound [OF _ c1]) simp_all
  have ry: "\<bar>2.4 * sin (real 1 * d)\<bar> \<le> (2.4 * 1) * \<bar>d\<bar>"
    by (rule scaled_bound [OF _ s1]) simp_all
  have rz: "\<bar>8 * sin (real 1 * d)\<bar> \<le> (8 * 1) * \<bar>d\<bar>"
    by (rule scaled_bound [OF _ s1]) simp_all
  have "\<bar>8 * cos (real 1 * d) - 8\<bar> \<le> 120 * \<bar>e\<bar> + 2 / 10^4"
    by (rule wrap_tol_js [OF rx D]) simp_all
  moreover have "\<bar>2.4 * sin (real 1 * d)\<bar> \<le> 120 * \<bar>e\<bar> + 2 / 10^4"
    by (rule wrap_tol_js [OF ry D]) simp_all
  moreover have "\<bar>8 * sin (real 1 * d)\<bar> \<le> 120 * \<bar>e\<bar> + 2 / 10^4"
    by (rule wrap_tol_js [OF rz D]) simp_all
  ultimately show "rel_option (\<lambda>p q. \<bar>vx p - vx q\<bar> \<le> 120 * \<bar>e\<bar> + 2 / 10^4 \<and>
                      \<bar>vy p - vy q\<bar> \<le> 120 * \<bar>e\<bar> + 2 / 10^4 \<and>
                      \<bar>vz p - vz q\<bar> \<le> 120 * \<bar>e\<bar> + 2 / 10^4)
     (getShape 2 (1 - e)) (getShape 2 0)"
    unfolding getShape_ring wrap by simp
qed

lemma sin_99998: "sin (99.998::real) < - (1 / 2)"
proof -
  define x where "x = 32 * pi - 99.998"
  have "5235987756 / 10^10 \<le> x" "x \<le> pi / 2"
    unfolding x_def using pi_lower pi_upper by simp_all
  then have "1 / 2 < sin x" by (rule sin_ge_half)
  moreover have "(99.998::real) = - x + 2 * pi * real 16"
    unfolding x_def by simp
  then have "sin (99.998::real) = sin (- x + 2 * pi * real 16)" by (rule arg_cong)
  then have "sin (99.998::real) = - sin x"
    unfolding sin_turns by simp
  ultimately show ?thesis by simp
qed

lemma sin_10: "sin (10::real) < - (1 / 2)"
proof -
  define x where "x = 10 - 3 * pi"
  have "5235987756 / 10^10 \<le> x" "x \<le> pi / 2"
    unfolding x_def using pi_lower pi_upper by simp_all
  then have "1 / 2 < sin x" by (rule sin_ge_half)
  moreover have "(10::real) = x + 3 * pi"
    unfolding x_def by simp
  then have "sin (10::real) = sin (x + 3 * pi)" by (rule arg_cong)
  then have "sin (10::real) = - sin x"
    unfolding sin_add by simp
  ultimately show ?thesis by simp
qed

text \<open>
  C2, as stated: at a fixed time Saturn has no seam in any coordinate between index 0 and
  the indices just below 1. At time 0 the last particle of the ring (49999 of 50000) and
  the first differ in \<open>z\<close> by at least 0.05, half the amplitude of the wave, while the
  first and the second differ by at most 0.0002.
\<close>

theorem saturn_wrap_seam:
  "1 / 20 \<le> \<bar>vz (saturnShape (material_uniforms scene0) (49999 / particleCount))
             - vz (saturnShape (material_uniforms scene0) (0 / particleCount))\<bar> \<and>
   \<bar>vz (saturnShape (material_uniforms scene0) (1 / particleCount))
             - vz (saturnShape (material_uniforms scene0) (0 / particleCount))\<bar> \<le> 1 / 5000"
proof -
  have a: "vz (saturnShape (material_uniforms scene0) (49999 / particleCount)) = 0.1 * sin 99.998"
    by (simp add: saturnShape_components scene0_uniforms particleCount_def)
  have b: "vz (saturnShape (material_uniforms scene0) (0 / particleCount)) = 0"
    by (simp add: saturnShape_components scene0_uniforms)
  have c: "vz (saturnShape (material_uniforms scene0) (1 / particleCount)) = 0.1 * sin 0.002"
    by (simp add: saturnShape_components scene0_uniforms particleCount_def)
  have "\<bar>sin (0.002::real)\<bar> \<le> 0.002"
    using abs_sin_x_le_abs_x [of "0.002::real"] by simp
  then have "\<bar>0.1 * sin (0.002::real)\<bar> \<le> 1 / 5000"
    by (simp add: abs_mult)
  moreover have "1 / 20 \<le> \<bar>0.1 * sin (99.998::real)\<bar>"
    using sin_99998 by (simp add: abs_mult)
  ultimately show ?thesis unfolding a b c by simp
qed

text \<open>
  C2, amended. At normalized index \<open>1 - e\<close> every coordinate of the flower, and the
  \<open>x\<close> and \<open>y\<close> of Saturn, are within \<open>37 * \<bar>e\<bar> + 10^-8\<close> of their values at index
  0. Saturn's \<open>z\<close> is not: it approaches \<open>0.1 * sin (0.5 * time + 100)\<close>, against
  \<open>0.1 * sin (0.5 * time)\<close> at index 0. In the reduced variant the ring is within
  \<open>120 * \<bar>e\<bar> + 0.0002\<close> in every coordinate, and so are the \<open>x\<close> and \<open>y\<close> of the
  flower, whose \<open>z\<close> approaches \<open>sin 10\<close>, which is below -0.5, against 0 at index 0.
\<close>

theorem wrap_continuity:
  "\<bar>vx (flowerShape (1 - e)) - vx (flowerShape 0)\<bar> \<le> 37 * \<bar>e\<bar> + 1 / 10^8 \<and>
   \<bar>vy (flowerShape (1 - e)) - vy (flowerShape 0)\<bar> \<le> 37 * \<bar>e\<bar> + 1 / 10^8 \<and>
   \<bar>vz (flowerShape (1 - e)) - vz (flowerShape 0)\<bar> \<le> 37 * \<bar>e\<bar> + 1 / 10^8 \<and>
   \<bar>vx (saturnShape u (1 - e)) - vx (saturnShape u 0)\<bar> \<le> 37 * \<bar>e\<bar> + 1 / 10^8 \<and>
   \<bar>vy (saturnShape u (1 - e)) - vy (saturnShape u 0)\<bar> \<le> 37 * \<bar>e\<bar> + 1 / 10^8 \<and>
   \<bar>vz (saturnShape u (1 - e)) - 0.1 * sin (0.5 * time u + 100)\<bar> \<le> 10 * \<bar>e\<bar> \<and>
   vz (saturnShape u 0) = 0.1 * sin (0.5 * time u) \<and>
   rel_option (\<lambda>p q. \<bar>vx p - vx q\<bar> \<le> 120 * \<bar>e\<bar> + 2 / 10^4 \<and>
                      \<bar>vy p - vy q\<bar> \<le> 120 * \<bar>e\<bar> + 2 / 10^4 \<and>
                      \<bar>vz p - sin 10\<bar> \<le> 10 * \<bar>e\<bar> \<and> vz q = 0)
     (getShape 1 (1 - e)) (getShape 1 0) \<and>
   sin (10::real) < - (1 / 2) \<and>
   rel_option (\<lambda>p q. \<bar>vx p - vx q\<bar> \<le> 120 * \<bar>e\<bar> + 2 / 10^4 \<and>
                      \<bar>vy p - vy q\<bar> \<le> 120 * \<bar>e\<bar> + 2 / 10^4 \<and>
                      \<bar>vz p - vz q\<bar> \<le> 120 * \<bar>e\<bar> + 2 / 10^4)
     (getShape 2 (1 - e)) (getShape 2 0)"
  by (intro conjI flower_wrap saturn_wrap getShape_wrap sin_10)

end
